theory Spec2Isabelle
  imports Complex_Main "HOL-Library.Product_Lexorder"
begin

section \<open>Budget analytics: the data model\<close>

text \<open>
  The embedding follows \<^verbatim>\<open>models.py\<close> and \<^verbatim>\<open>app.py\<close>. Amounts are
  Python floats in the source; here they are exact rationals, so every sum and quotient
  below is the exact one (rounding error of binary floating point is outside the model).
  A DataFrame is the list of its rows, and a row carries the columns that
  \<^verbatim>\<open>get_transactions_as_dataframe\<close> copies from a \<^verbatim>\<open>Transaction\<close>.
\<close>

datatype TransactionType = INCOME | EXPENSE

text \<open>A \<^verbatim>\<open>datetime\<close>: calendar fields and the time of day in seconds.\<close>

record datetime =
  dt_year :: nat
  dt_month :: nat
  dt_day :: nat
  dt_time :: nat

record Transaction =
  txn_id :: int
  txn_date :: datetime
  txn_category :: string
  txn_amount :: rat
  txn_type :: TransactionType
  txn_description :: "string option"
  txn_created_at :: datetime

type_synonym DataFrame = "Transaction list"

text \<open>Exceptions the modelled code can raise, and HTTP responses by status code.\<close>

datatype error = ZeroDivisionError | KeyError string

datatype 'a response =
    Ok200 'a
  | Created201 'a
  | BadRequest400 string
  | NotFound404 string
  | ServerError500 error

subsection \<open>Timestamps, and months as pandas periods\<close>

definition dt_key :: "datetime \<Rightarrow> nat \<times> nat \<times> nat \<times> nat" where
  "dt_key d = (dt_year d, dt_month d, dt_day d, dt_time d)"

definition dt_le :: "datetime \<Rightarrow> datetime \<Rightarrow> bool" where
  "dt_le a b = (dt_key a \<le> dt_key b)"

text \<open>The ranges in which Python's \<^verbatim>\<open>datetime\<close> keeps its calendar fields.\<close>

definition valid_date :: "datetime \<Rightarrow> bool" where
  "valid_date d =
     (1 \<le> dt_year d \<and> dt_year d \<le> 9999 \<and> 1 \<le> dt_month d \<and> dt_month d \<le> 12
      \<and> 1 \<le> dt_day d \<and> dt_day d \<le> 31)"

text \<open>
  \<^verbatim>\<open>Series.min()\<close> and \<^verbatim>\<open>Series.max()\<close> of the date column of a frame that has
  a first row.
\<close>

definition date_min :: "datetime \<Rightarrow> datetime list \<Rightarrow> datetime" where
  "date_min d ds = foldl (\<lambda>a b. if dt_key b < dt_key a then b else a) d ds"

definition date_max :: "datetime \<Rightarrow> datetime list \<Rightarrow> datetime" where
  "date_max d ds = foldl (\<lambda>a b. if dt_key a < dt_key b then b else a) d ds"

text \<open>
  A monthly \<^verbatim>\<open>Period\<close> is its ordinal, the number of months since January 1970;
  \<^verbatim>\<open>period_range\<close> counts ordinals from the start to the end, both included.
\<close>

type_synonym period = int

definition to_period_M :: "datetime \<Rightarrow> period" where
  "to_period_M d = (int (dt_year d) - 1970) * 12 + (int (dt_month d) - 1)"

definition period_year :: "period \<Rightarrow> int" where
  "period_year p = 1970 + p div 12"

definition period_month :: "period \<Rightarrow> int" where
  "period_month p = p mod 12 + 1"

definition period_range :: "period \<Rightarrow> period \<Rightarrow> period list" where
  "period_range start end = [start..end]"

subsection \<open>Numbers\<close>

text \<open>
  \<^verbatim>\<open>round(x, 2)\<close>: a multiple of one hundredth nearest to \<open>x\<close>. The source rounds
  a binary float, and for a value that lies exactly halfway between two hundredths the
  result follows the binary expansion of the float (\<^verbatim>\<open>round(2.675, 2)\<close> is
  \<^verbatim>\<open>2.67\<close>), which an exact rational does not have. The direction taken at such a
  tie is therefore a parameter of the model: a tie rule says at which halfway values the
  result is the upper hundredth. Away from a tie the result does not depend on it.
\<close>

type_synonym tie_rule = "rat \<Rightarrow> bool"

definition round2 :: "tie_rule \<Rightarrow> rat \<Rightarrow> rat" where
  "round2 tie x =
     (let q = x * 100; f = \<lfloor>q\<rfloor>; d = q - of_int f
      in of_int (if d < 1 / 2 then f else if 1 / 2 < d then f + 1
                 else if tie x then f + 1 else f) / 100)"

definition two_decimals :: "rat \<Rightarrow> bool" where
  "two_decimals x = (of_int \<lfloor>x * 100\<rfloor> = x * 100)"

text \<open>Division raises on a zero divisor.\<close>

definition truediv :: "rat \<Rightarrow> rat \<Rightarrow> error + rat" where
  "truediv a b = (if b = 0 then Inl ZeroDivisionError else Inr (a / b))"

text \<open>
  The guarded percentage that the source writes as
  \<^verbatim>\<open>(a / b * 100) if b > 0 else 0\<close>.
\<close>

definition pct_if_positive :: "rat \<Rightarrow> rat \<Rightarrow> error + rat" where
  "pct_if_positive a b =
     (if b > 0 then (case truediv a b of Inl e \<Rightarrow> Inl e | Inr q \<Rightarrow> Inr (q * 100))
      else Inr 0)"

subsection \<open>Grouped sums\<close>

text \<open>
  \<^verbatim>\<open>groupby(key)['amount'].sum()\<close>: one pass over the rows, each adding its amount
  to the running total of its key; a key is present once a row has it.
\<close>

definition add_to_group :: "('k \<rightharpoonup> rat) \<Rightarrow> 'k \<times> rat \<Rightarrow> ('k \<rightharpoonup> rat)" where
  "add_to_group m kv =
     m(fst kv \<mapsto> (case m (fst kv) of None \<Rightarrow> snd kv | Some s \<Rightarrow> s + snd kv))"

definition groupby_sum :: "('k \<times> rat) list \<Rightarrow> ('k \<rightharpoonup> rat)" where
  "groupby_sum kvs = foldl add_to_group Map.empty kvs"

text \<open>\<^verbatim>\<open>series.get(key, 0)\<close>.\<close>

definition series_get :: "('k \<rightharpoonup> rat) \<Rightarrow> 'k \<Rightarrow> rat" where
  "series_get m k = (case m k of None \<Rightarrow> 0 | Some v \<Rightarrow> v)"

section \<open>The aggregation functions\<close>

definition is_expense :: "Transaction \<Rightarrow> bool" where
  "is_expense r = (txn_type r = EXPENSE)"

definition is_income :: "Transaction \<Rightarrow> bool" where
  "is_income r = (txn_type r = INCOME)"

text \<open>\<^verbatim>\<open>expenses['amount'] = expenses['amount'].abs()\<close> on a copy of the rows.\<close>

definition abs_amount :: "Transaction \<Rightarrow> Transaction" where
  "abs_amount r = r\<lparr>txn_amount := \<bar>txn_amount r\<bar>\<rparr>"

definition analyze_spending :: "DataFrame \<Rightarrow> (string \<rightharpoonup> rat)" where
  "analyze_spending df =
     (if df = [] then Map.empty
      else
        let expenses = map abs_amount (filter is_expense df)
        in groupby_sum (map (\<lambda>r. (txn_category r, txn_amount r)) expenses))"


subsection \<open>Rendering months and dates\<close>

text \<open>
  \<^verbatim>\<open>str(month)\<close> prints a monthly period as \<^verbatim>\<open>2024-01\<close> and
  \<^verbatim>\<open>strftime('%Y-%m-%d')\<close> prints a date as \<^verbatim>\<open>2024-01-15\<close>: the year in
  decimal without padding (\<^verbatim>\<open>999-03-05\<close>), the month and the day with two
  digits.
\<close>

definition digit_char :: "nat \<Rightarrow> char" where
  "digit_char n = char_of (48 + n)"

fun dec_digits :: "nat \<Rightarrow> nat \<Rightarrow> string" where
  "dec_digits 0 n = []"
| "dec_digits (Suc w) n = dec_digits w (n div 10) @ [digit_char (n mod 10)]"

fun str_nat :: "nat \<Rightarrow> string" where
  "str_nat n =
     (if n < 10 then [digit_char n] else str_nat (n div 10) @ [digit_char (n mod 10)])"

declare str_nat.simps [simp del]

definition period_str :: "period \<Rightarrow> string" where
  "period_str p =
     str_nat (nat (period_year p)) @ ''-'' @ dec_digits 2 (nat (period_month p))"

definition strftime_ymd :: "datetime \<Rightarrow> string" where
  "strftime_ymd d =
     str_nat (dt_year d) @ ''-'' @ dec_digits 2 (dt_month d) @ ''-''
       @ dec_digits 2 (dt_day d)"

subsection \<open>The monthly breakdown\<close>

record MonthlyEntry =
  me_month :: string
  me_income :: rat
  me_expenses :: rat
  me_savings :: rat
  me_savings_rate :: rat

text \<open>The body of the loop over the months: one dictionary of the result.\<close>

definition month_entry ::
  "tie_rule \<Rightarrow> (period \<rightharpoonup> rat) \<Rightarrow> (period \<rightharpoonup> rat) \<Rightarrow> period
     \<Rightarrow> error + MonthlyEntry" where
  "month_entry tie monthly_income monthly_expenses month =
     (let income = series_get monthly_income month;
          expenses = series_get monthly_expenses month;
          savings = income - expenses
      in case pct_if_positive savings income of
           Inl e \<Rightarrow> Inl e
         | Inr savings_rate \<Rightarrow>
             Inr \<lparr>me_month = period_str month,
                  me_income = round2 tie income,
                  me_expenses = round2 tie expenses,
                  me_savings = round2 tie savings,
                  me_savings_rate = round2 tie savings_rate\<rparr>)"

fun monthly_loop ::
  "tie_rule \<Rightarrow> (period \<rightharpoonup> rat) \<Rightarrow> (period \<rightharpoonup> rat) \<Rightarrow> period list
     \<Rightarrow> error + MonthlyEntry list" where
  "monthly_loop tie monthly_income monthly_expenses [] = Inr []"
| "monthly_loop tie monthly_income monthly_expenses (month # months) =
     (case month_entry tie monthly_income monthly_expenses month of
        Inl e \<Rightarrow> Inl e
      | Inr entry \<Rightarrow>
          (case monthly_loop tie monthly_income monthly_expenses months of
             Inl e \<Rightarrow> Inl e
           | Inr result \<Rightarrow> Inr (entry # result)))"

definition analyze_monthly :: "tie_rule \<Rightarrow> DataFrame \<Rightarrow> error + MonthlyEntry list" where
  "analyze_monthly tie df =
     (case df of
        [] \<Rightarrow> Inr []
      | r # rs \<Rightarrow>
          let income_df = filter is_income df;
              expense_df = map abs_amount (filter is_expense df);
              monthly_income =
                groupby_sum (map (\<lambda>t. (to_period_M (txn_date t), txn_amount t)) income_df);
              monthly_expenses =
                groupby_sum (map (\<lambda>t. (to_period_M (txn_date t), txn_amount t)) expense_df);
              first_date = date_min (txn_date r) (map txn_date rs);
              last_date = date_max (txn_date r) (map txn_date rs)
          in monthly_loop tie monthly_income monthly_expenses
               (period_range (to_period_M first_date) (to_period_M last_date)))"

section \<open>The endpoints\<close>

text \<open>
  A date parameter of a request: the text received, and the timestamp the database reads
  from it when it compares it with the \<^verbatim>\<open>date\<close> column. A parameter is used when
  it is present and its text is not empty (\<^verbatim>\<open>if start_date:\<close>).
\<close>

record date_param =
  dp_text :: string
  dp_value :: datetime

definition truthy :: "date_param option \<Rightarrow> bool" where
  "truthy p = (case p of None \<Rightarrow> False | Some d \<Rightarrow> dp_text d \<noteq> [])"

definition param_text :: "date_param option \<Rightarrow> string" where
  "param_text p = (case p of None \<Rightarrow> ''None'' | Some d \<Rightarrow> dp_text d)"

definition get_transactions_as_dataframe ::
  "Transaction list \<Rightarrow> date_param option \<Rightarrow> date_param option \<Rightarrow> DataFrame" where
  "get_transactions_as_dataframe db start_date end_date =
     (let query1 =
            (if truthy start_date
             then filter (\<lambda>t. dt_le (dp_value (the start_date)) (txn_date t)) db
             else db);
          query2 =
            (if truthy end_date
             then filter (\<lambda>t. dt_le (txn_date t) (dp_value (the end_date))) query1
             else query1)
      in query2)"

definition sum_income :: "DataFrame \<Rightarrow> rat" where
  "sum_income df = sum_list (map txn_amount (filter is_income df))"

definition sum_abs_expenses :: "DataFrame \<Rightarrow> rat" where
  "sum_abs_expenses df = sum_list (map (\<lambda>t. \<bar>txn_amount t\<bar>) (filter is_expense df))"

record Summary =
  sm_total_income :: rat
  sm_total_expenses :: rat
  sm_total_savings :: rat
  sm_savings_rate :: rat

record Analysis =
  an_summary :: Summary
  an_category_spending :: "string \<rightharpoonup> rat"
  an_date_range_start :: string
  an_date_range_end :: string

definition get_analysis ::
  "tie_rule \<Rightarrow> Transaction list \<Rightarrow> date_param option \<Rightarrow> date_param option
     \<Rightarrow> Analysis response" where
  "get_analysis tie db start_date end_date =
     (let df = get_transactions_as_dataframe db start_date end_date
      in case df of
           [] \<Rightarrow> NotFound404 ''No transactions found''
         | r # rs \<Rightarrow>
             let category_spending = analyze_spending df;
                 total_income = sum_income df;
                 total_expenses = sum_abs_expenses df;
                 total_savings = total_income - total_expenses
             in (case pct_if_positive total_savings total_income of
                  Inl e \<Rightarrow> ServerError500 e
                | Inr rate \<Rightarrow>
                    Ok200 \<lparr>an_summary =
                             \<lparr>sm_total_income = round2 tie total_income,
                              sm_total_expenses = round2 tie total_expenses,
                              sm_total_savings = round2 tie total_savings,
                              sm_savings_rate = round2 tie rate\<rparr>,
                           an_category_spending = category_spending,
                           an_date_range_start =
                             strftime_ymd (date_min (txn_date r) (map txn_date rs)),
                           an_date_range_end =
                             strftime_ymd (date_max (txn_date r) (map txn_date rs))\<rparr>))"

definition get_monthly_analysis ::
  "tie_rule \<Rightarrow> Transaction list \<Rightarrow> date_param option \<Rightarrow> date_param option
     \<Rightarrow> MonthlyEntry list response" where
  "get_monthly_analysis tie db start_date end_date =
     (let df = get_transactions_as_dataframe db start_date end_date
      in if df = [] then NotFound404 ''No transactions found''
         else (case analyze_monthly tie df of
                 Inl e \<Rightarrow> ServerError500 e
               | Inr monthly_data \<Rightarrow> Ok200 monthly_data))"

record PeriodTotals =
  pt_date_range :: string
  pt_income :: rat
  pt_expenses :: rat
  pt_savings :: rat

record Changes =
  ch_income_change :: rat
  ch_income_change_pct :: rat
  ch_expense_change :: rat
  ch_expense_change_pct :: rat

record Comparison =
  cmp_period1 :: PeriodTotals
  cmp_period2 :: PeriodTotals
  cmp_changes :: Changes

definition compare_periods ::
  "tie_rule \<Rightarrow> Transaction list \<Rightarrow> date_param option \<Rightarrow> date_param option
     \<Rightarrow> date_param option \<Rightarrow> date_param option \<Rightarrow> Comparison response" where
  "compare_periods tie db p1_start p1_end p2_start p2_end =
     (if \<not> (truthy p1_start \<and> truthy p1_end \<and> truthy p2_start \<and> truthy p2_end)
      then BadRequest400
             ''Required parameters: period1_start, period1_end, period2_start, period2_end''
      else
        let df1 = get_transactions_as_dataframe db p1_start p1_end;
            p1_income = (if df1 \<noteq> [] then sum_income df1 else 0);
            p1_expenses = (if df1 \<noteq> [] then sum_abs_expenses df1 else 0);
            df2 = get_transactions_as_dataframe db p2_start p2_end;
            p2_income = (if df2 \<noteq> [] then sum_income df2 else 0);
            p2_expenses = (if df2 \<noteq> [] then sum_abs_expenses df2 else 0);
            income_change = p2_income - p1_income;
            expense_change = p2_expenses - p1_expenses
        in case pct_if_positive income_change p1_income of
             Inl e \<Rightarrow> ServerError500 e
           | Inr income_change_pct \<Rightarrow>
               (case pct_if_positive expense_change p1_expenses of
                  Inl e \<Rightarrow> ServerError500 e
                | Inr expense_change_pct \<Rightarrow>
                    Ok200 \<lparr>cmp_period1 =
                             \<lparr>pt_date_range = param_text p1_start @ '' to '' @ param_text p1_end,
                              pt_income = round2 tie p1_income,
                              pt_expenses = round2 tie p1_expenses,
                              pt_savings = round2 tie (p1_income - p1_expenses)\<rparr>,
                           cmp_period2 =
                             \<lparr>pt_date_range = param_text p2_start @ '' to '' @ param_text p2_end,
                              pt_income = round2 tie p2_income,
                              pt_expenses = round2 tie p2_expenses,
                              pt_savings = round2 tie (p2_income - p2_expenses)\<rparr>,
                           cmp_changes =
                             \<lparr>ch_income_change = round2 tie income_change,
                              ch_income_change_pct = round2 tie income_change_pct,
                              ch_expense_change = round2 tie expense_change,
                              ch_expense_change_pct = round2 tie expense_change_pct\<rparr>\<rparr>))"

subsection \<open>Overall statistics\<close>

text \<open>
  \<^verbatim>\<open>func.sum\<close> over the selected rows is \<^verbatim>\<open>NULL\<close> when there are none, and
  \<^verbatim>\<open>scalar() or 0\<close> replaces \<^verbatim>\<open>None\<close> (and a zero sum) by \<^verbatim>\<open>0\<close>.
\<close>

definition sql_sum :: "rat list \<Rightarrow> rat option" where
  "sql_sum xs = (if xs = [] then None else Some (sum_list xs))"

definition or_zero :: "rat option \<Rightarrow> rat" where
  "or_zero v = (case v of None \<Rightarrow> 0 | Some x \<Rightarrow> if x = 0 then 0 else x)"

record Stats =
  st_total_transactions :: nat
  st_total_income :: rat
  st_total_expenses :: rat
  st_net_savings :: rat
  st_unique_categories :: nat

definition get_stats :: "tie_rule \<Rightarrow> Transaction list \<Rightarrow> Stats response" where
  "get_stats tie db =
     (let total_transactions = length db;
          total_income = or_zero (sql_sum (map txn_amount (filter is_income db)));
          total_expenses = or_zero (sql_sum (map txn_amount (filter is_expense db)));
          categories = length (remdups (map txn_category db))
      in Ok200 \<lparr>st_total_transactions = total_transactions,
                st_total_income = round2 tie total_income,
                st_total_expenses = round2 tie \<bar>total_expenses\<bar>,
                st_net_savings = round2 tie (total_income + total_expenses),
                st_unique_categories = categories\<rparr>)"

subsection \<open>Constructing transactions\<close>

text \<open>
  The fields of a request body or of a CSV row once \<^verbatim>\<open>strptime\<close> (or
  \<^verbatim>\<open>to_datetime\<close>) and \<^verbatim>\<open>float\<close> have read the date and the amount; the
  \<^verbatim>\<open>type\<close> is still the text that was sent.
\<close>

record TransactionInput =
  in_date :: datetime
  in_category :: string
  in_amount :: rat
  in_type :: string
  in_description :: "string option"

text \<open>
  \<^verbatim>\<open>TransactionType.INCOME if data['type'] == 'income' else TransactionType.EXPENSE\<close>,
  the expression both construction sites use.
\<close>

definition transaction_type_of :: "string \<Rightarrow> TransactionType" where
  "transaction_type_of s = (if s = ''income'' then INCOME else EXPENSE)"

text \<open>
  The type filter of the transaction listing reads the same kind of text with
  \<^verbatim>\<open>TransactionType[transaction_type.upper()]\<close>: the member of that name after
  upper-casing, and a \<^verbatim>\<open>KeyError\<close> when there is none.
\<close>

definition upper_char :: "char \<Rightarrow> char" where
  "upper_char c =
     (if (97::nat) \<le> of_char c \<and> of_char c \<le> (122::nat)
      then char_of (of_char c - (32::nat)) else c)"

definition str_upper :: "string \<Rightarrow> string" where
  "str_upper s = map upper_char s"

definition transaction_type_by_name :: "string \<Rightarrow> error + TransactionType" where
  "transaction_type_by_name name =
     (if name = ''INCOME'' then Inr INCOME
      else if name = ''EXPENSE'' then Inr EXPENSE
      else Inl (KeyError name))"

definition type_filter :: "string \<Rightarrow> error + TransactionType" where
  "type_filter transaction_type = transaction_type_by_name (str_upper transaction_type)"

definition next_id :: "Transaction list \<Rightarrow> int" where
  "next_id db = foldl max 0 (map txn_id db) + 1"

definition new_transaction :: "int \<Rightarrow> datetime \<Rightarrow> TransactionInput \<Rightarrow> Transaction" where
  "new_transaction i now data =
     \<lparr>txn_id = i,
      txn_date = in_date data,
      txn_category = in_category data,
      txn_amount = in_amount data,
      txn_type = transaction_type_of (in_type data),
      txn_description =
        Some (case in_description data of None \<Rightarrow> [] | Some d \<Rightarrow> d),
      txn_created_at = now\<rparr>"

definition create_transaction ::
  "Transaction list \<Rightarrow> datetime \<Rightarrow> TransactionInput
     \<Rightarrow> Transaction list \<times> Transaction response" where
  "create_transaction db now data =
     (let transaction = new_transaction (next_id db) now data
      in (db @ [transaction], Created201 transaction))"

fun upload_rows :: "Transaction list \<Rightarrow> datetime \<Rightarrow> TransactionInput list \<Rightarrow> Transaction list" where
  "upload_rows db now [] = db"
| "upload_rows db now (row # rows) =
     upload_rows (db @ [new_transaction (next_id db) now row]) now rows"

definition upload_csv ::
  "Transaction list \<Rightarrow> datetime \<Rightarrow> TransactionInput list \<Rightarrow> Transaction list \<times> nat response" where
  "upload_csv db now rows = (upload_rows db now rows, Created201 (length rows))"


section \<open>Notions used to state the properties\<close>

text \<open>The rows of a frame whose date falls in a given month.\<close>

definition in_month :: "period \<Rightarrow> DataFrame \<Rightarrow> DataFrame" where
  "in_month p df = filter (\<lambda>t. to_period_M (txn_date t) = p) df"

text \<open>A record with the sign of its amount changed.\<close>

definition flip_sign :: "Transaction \<Rightarrow> Transaction" where
  "flip_sign r = r\<lparr>txn_amount := - txn_amount r\<rparr>"

text \<open>
  Two records that are the same, or the same expense with the sign of the amount changed.
\<close>

definition expense_sign_variant :: "Transaction \<Rightarrow> Transaction \<Rightarrow> bool" where
  "expense_sign_variant a b = (b = a \<or> (is_expense a \<and> b = flip_sign a))"

section \<open>Sample data\<close>

text \<open>
  The scenario of the specification: two \<^verbatim>\<open>Food\<close> expenses, one stored with a
  negative and one with a positive amount, and a salary.
\<close>

definition at_date :: "nat \<Rightarrow> nat \<Rightarrow> nat \<Rightarrow> datetime" where
  "at_date y m d = \<lparr>dt_year = y, dt_month = m, dt_day = d, dt_time = 0\<rparr>"

definition sample_txn ::
  "int \<Rightarrow> datetime \<Rightarrow> string \<Rightarrow> rat \<Rightarrow> TransactionType \<Rightarrow> Transaction" where
  "sample_txn i d c a t =
     \<lparr>txn_id = i, txn_date = d, txn_category = c, txn_amount = a, txn_type = t,
      txn_description = None, txn_created_at = d\<rparr>"

definition food_jan :: Transaction where
  "food_jan = sample_txn 1 (at_date 2024 1 15) ''Food'' (- 30) EXPENSE"

definition food_feb :: Transaction where
  "food_feb = sample_txn 2 (at_date 2024 2 10) ''Food'' 20 EXPENSE"

definition salary_jan :: Transaction where
  "salary_jan = sample_txn 3 (at_date 2024 1 20) ''Salary'' 1000 INCOME"

definition sample_db :: "Transaction list" where
  "sample_db = [food_jan, food_feb, salary_jan]"

text \<open>A frame with two months without any record between its first and its last.\<close>

definition rent_apr :: Transaction where
  "rent_apr = sample_txn 4 (at_date 2024 4 1) ''Rent'' 800 EXPENSE"

definition gap_db :: "Transaction list" where
  "gap_db = [rent_apr, salary_jan]"

text \<open>A tie rule for the examples: at a tie, the even hundredth.\<close>

definition ties_to_even :: tie_rule where
  "ties_to_even x = odd \<lfloor>x * 100\<rfloor>"

text \<open>An income stored with a negative amount, and an income in February.\<close>

definition refund_jan :: Transaction where
  "refund_jan = sample_txn 5 (at_date 2024 1 5) ''Refund'' (- 100) INCOME"

definition bonus_feb :: Transaction where
  "bonus_feb = sample_txn 6 (at_date 2024 2 20) ''Bonus'' 500 INCOME"

text \<open>An expense whose amount is not a whole number of cents.\<close>

definition fee_jan :: Transaction where
  "fee_jan = sample_txn 7 (at_date 2024 1 9) ''Fees'' (161 / 16) EXPENSE"

text \<open>
  Two incomes below one cent, one in January and one in February, and the comparison of
  the two months.
\<close>

definition interest_jan :: Transaction where
  "interest_jan = sample_txn 8 (at_date 2024 1 10) ''Interest'' (1 / 250) INCOME"

definition interest_feb :: Transaction where
  "interest_feb = sample_txn 9 (at_date 2024 2 10) ''Interest'' (1 / 125) INCOME"


text \<open>A request body for a salary, with the text sent as its type.\<close>

definition salary_input :: "string \<Rightarrow> TransactionInput" where
  "salary_input type_text =
     \<lparr>in_date = at_date 2024 1 20, in_category = ''Salary'', in_amount = 1000,
      in_type = type_text, in_description = None\<rparr>"

text \<open>Date parameters for January and February 2024.\<close>

definition day_param :: "string \<Rightarrow> nat \<Rightarrow> nat \<Rightarrow> nat \<Rightarrow> date_param option" where
  "day_param text y m d = Some \<lparr>dp_text = text, dp_value = at_date y m d\<rparr>"

definition jan_first :: "date_param option" where
  "jan_first = day_param ''2024-01-01'' 2024 1 1"

definition jan_last :: "date_param option" where
  "jan_last = day_param ''2024-01-31'' 2024 1 31"

definition feb_first :: "date_param option" where
  "feb_first = day_param ''2024-02-01'' 2024 2 1"

definition feb_last :: "date_param option" where
  "feb_last = day_param ''2024-02-29'' 2024 2 29"

lemmas sample_defs =
  sample_db_def gap_db_def food_jan_def food_feb_def salary_jan_def rent_apr_def
  refund_jan_def bonus_feb_def fee_jan_def interest_jan_def interest_feb_def sample_txn_def
  at_date_def

lemmas param_defs =
  jan_first_def jan_last_def feb_first_def feb_last_def day_param_def

section \<open>Grouped sums are the per-key sums\<close>

lemma add_to_group_lookup:
  "add_to_group m kv k = (if fst kv = k then Some (series_get m k + snd kv) else m k)"
  by (simp add: add_to_group_def series_get_def split: option.splits)

lemma series_get_add_to_group:
  "series_get (add_to_group m kv) k =
     (if fst kv = k then series_get m k + snd kv else series_get m k)"
  by (simp add: add_to_group_lookup series_get_def)

lemma filter_absent_key:
  "k \<notin> fst ` set kvs \<Longrightarrow> filter (\<lambda>kv. fst kv = k) kvs = []"
  by (induction kvs) auto

lemma foldl_add_to_group:
  "foldl add_to_group m kvs k =
     (if k \<in> fst ` set kvs
      then Some (series_get m k + sum_list (map snd (filter (\<lambda>kv. fst kv = k) kvs)))
      else m k)"
proof (induction kvs arbitrary: m)
  case Nil
  show ?case by simp
next
  case (Cons kv kvs)
  have "foldl add_to_group m (kv # kvs) k = foldl add_to_group (add_to_group m kv) kvs k"
    by simp
  also have "\<dots> =
     (if k \<in> fst ` set kvs
      then Some (series_get (add_to_group m kv) k
                  + sum_list (map snd (filter (\<lambda>kv. fst kv = k) kvs)))
      else add_to_group m kv k)"
    by (rule Cons.IH)
  also have "\<dots> =
     (if k \<in> fst ` set (kv # kvs)
      then Some (series_get m k + sum_list (map snd (filter (\<lambda>kv. fst kv = k) (kv # kvs))))
      else m k)"
    by (auto simp: series_get_add_to_group add_to_group_lookup filter_absent_key)
  finally show ?case .
qed

lemma groupby_sum_lookup:
  "groupby_sum kvs k =
     (if k \<in> fst ` set kvs
      then Some (sum_list (map snd (filter (\<lambda>kv. fst kv = k) kvs)))
      else None)"
  by (simp add: groupby_sum_def foldl_add_to_group series_get_def)

section \<open>Category spending\<close>

lemma expense_pairs_filter:
  "map snd (filter (\<lambda>kv. fst kv = c)
      (map (\<lambda>r. (txn_category r, txn_amount r)) (map abs_amount (filter is_expense df))))
   = map (\<lambda>r. \<bar>txn_amount r\<bar>) (filter (\<lambda>r. is_expense r \<and> txn_category r = c) df)"
  by (induction df) (auto simp: abs_amount_def)

lemma expense_pairs_keys:
  "fst ` set (map (\<lambda>r. (txn_category r, txn_amount r)) (map abs_amount (filter is_expense df)))
   = txn_category ` set (filter is_expense df)"
  by (auto simp: abs_amount_def image_iff)

lemma analyze_spending_lookup:
  "analyze_spending df k =
     (if k \<in> txn_category ` set (filter is_expense df)
      then Some (sum_list (map (\<lambda>r. \<bar>txn_amount r\<bar>)
                   (filter (\<lambda>r. is_expense r \<and> txn_category r = k) df)))
      else None)"
proof (cases "df = []")
  case True
  then show ?thesis by (simp add: analyze_spending_def)
next
  case False
  then show ?thesis
    unfolding analyze_spending_def Let_def
    by (simp only: if_False groupby_sum_lookup expense_pairs_filter expense_pairs_keys)
qed

text \<open>
  C1. The category-spending mapping has exactly the categories of the expense records as
  its keys, and at each of them the sum of the absolute amounts of that category's expense
  records; a category without an expense record is absent (not present with 0), and the
  mapping is empty for the empty collection and for one without expense records.
\<close>

theorem analyze_spending_correct:
  "analyze_spending df c =
     (if c \<in> txn_category ` set (filter is_expense df)
      then Some (sum_list (map (\<lambda>r. \<bar>txn_amount r\<bar>)
                   (filter (\<lambda>r. is_expense r \<and> txn_category r = c) df)))
      else None)
   \<and> dom (analyze_spending df) = txn_category ` set (filter is_expense df)
   \<and> analyze_spending [] = Map.empty
   \<and> (filter is_expense df = [] \<longrightarrow> analyze_spending df = Map.empty)"
proof -
  have keys: "dom (analyze_spending df) = txn_category ` set (filter is_expense df)"
    by (auto simp: dom_def analyze_spending_lookup)
  have none: "analyze_spending df = Map.empty" if "filter is_expense df = []"
  proof
    fix k
    from that show "analyze_spending df k = None"
      by (simp only: analyze_spending_lookup list.set image_empty empty_iff if_False)
  qed
  show ?thesis
    using analyze_spending_lookup [of df c] keys none by (simp add: analyze_spending_def)
qed

theorem analyze_spending_correct_witness:
  "filter is_expense [salary_jan] = []
   \<and> analyze_spending [salary_jan] = Map.empty
   \<and> analyze_spending sample_db ''Food'' = Some 50
   \<and> analyze_spending sample_db ''Salary'' = None
   \<and> dom (analyze_spending sample_db) = {''Food''}"
proof -
  have no_expense: "filter is_expense [salary_jan] = []"
    by (simp add: sample_defs is_expense_def)
  have empty: "analyze_spending [salary_jan] = Map.empty"
    using analyze_spending_correct [of "[salary_jan]" "''Food''"] no_expense by simp
  have food: "analyze_spending sample_db ''Food'' = Some 50"
    by (simp add: analyze_spending_def groupby_sum_def add_to_group_def sample_defs
        is_expense_def abs_amount_def)
  have salary: "analyze_spending sample_db ''Salary'' = None"
    by (simp add: analyze_spending_def groupby_sum_def add_to_group_def sample_defs
        is_expense_def abs_amount_def)
  have "txn_category ` set (filter is_expense sample_db) = {''Food''}"
    by (simp add: sample_defs is_expense_def)
  then have keys: "dom (analyze_spending sample_db) = {''Food''}"
    using analyze_spending_correct [of sample_db "''Food''"] by simp
  show ?thesis using no_expense empty food salary keys by simp
qed

section \<open>The guarded percentage never raises\<close>

lemma pct_if_positive_eq:
  "pct_if_positive a b = Inr (if 0 < b then a / b * 100 else 0)"
  by (simp add: pct_if_positive_def truediv_def)

section \<open>Rounding to hundredths\<close>

lemma two_decimals_iff: "two_decimals x \<longleftrightarrow> (\<exists>k::int. x = of_int k / 100)"
proof
  assume "two_decimals x"
  then have e: "of_int \<lfloor>x * 100\<rfloor> = x * 100" unfolding two_decimals_def .
  have "x = x * 100 / 100" by simp
  also have "\<dots> = of_int \<lfloor>x * 100\<rfloor> / 100" by (simp only: e)
  finally show "\<exists>k::int. x = of_int k / 100" ..
next
  assume "\<exists>k::int. x = of_int k / 100"
  then obtain k :: int where "x = of_int k / 100" ..
  then show "two_decimals x" by (simp add: two_decimals_def)
qed

lemma two_decimals_round2: "two_decimals (round2 tie x)"
  unfolding two_decimals_iff round2_def Let_def by blast

lemma round2_near: "\<bar>round2 tie x - x\<bar> \<le> 1 / 200"
proof -
  define q where "q = x * 100"
  define f where "f = \<lfloor>q\<rfloor>"
  define k where "k = (if q - of_int f < 1 / 2 then f else if 1 / 2 < q - of_int f then f + 1
                       else if tie x then f + 1 else f)"
  have r: "round2 tie x = of_int k / 100"
    by (simp add: round2_def Let_def k_def f_def q_def)
  have fl: "of_int f \<le> q" "q < of_int f + 1" unfolding f_def by linarith+
  have "\<bar>of_int k - q\<bar> \<le> 1 / 2"
    using fl unfolding k_def by (auto simp: abs_if)
  then have "\<bar>of_int k - q\<bar> / 100 \<le> (1 / 2) / 100"
    by (rule divide_right_mono) simp
  moreover have "\<bar>round2 tie x - x\<bar> = \<bar>of_int k - q\<bar> / 100"
    unfolding r q_def by (simp add: abs_if field_simps)
  ultimately show ?thesis by simp
qed

lemma round2_unique:
  assumes "two_decimals y" "\<bar>y - x\<bar> < 1 / 200"
  shows "round2 tie x = y"
proof -
  obtain k :: int where k: "round2 tie x = of_int k / 100"
    using two_decimals_round2 [of tie x] unfolding two_decimals_iff ..
  obtain l :: int where l: "y = of_int l / 100"
    using assms(1) unfolding two_decimals_iff ..
  have "\<bar>round2 tie x - y\<bar> \<le> \<bar>round2 tie x - x\<bar> + \<bar>y - x\<bar>" by linarith
  also have "\<dots> < 1 / 200 + 1 / 200"
    using round2_near [of tie x] assms(2) by linarith
  finally have "\<bar>round2 tie x - y\<bar> < 1 / 100" by simp
  then have "\<bar>(of_int k :: rat) - of_int l\<bar> < 1"
    unfolding k l by (simp add: abs_if field_simps split: if_splits)
  then have "\<bar>of_int (k - l) :: rat\<bar> < of_int 1" by simp
  then have "\<bar>k - l\<bar> < 1" unfolding of_int_abs [symmetric] of_int_less_iff .
  then have "k = l" by simp
  then show ?thesis by (simp add: k l)
qed

lemma round2_two_decimals: "two_decimals x \<Longrightarrow> round2 tie x = x"
  by (rule round2_unique) simp_all

lemma two_decimals_zero: "two_decimals 0"
  by (simp add: two_decimals_def)

lemma round2_zero: "round2 tie 0 = 0"
  by (rule round2_two_decimals) (rule two_decimals_zero)

lemma round2_of_int: "round2 tie (of_int k) = of_int k"
  by (rule round2_two_decimals) (simp add: two_decimals_def)

lemma round2_numeral:
  "round2 tie (numeral n) = numeral n" "round2 tie (- numeral n) = - numeral n"
  using round2_of_int [of tie "numeral n"] round2_of_int [of tie "- numeral n"] by simp_all

section \<open>The monthly breakdown\<close>

lemma month_entry_eq:
  "month_entry tie mi me p =
     Inr \<lparr>me_month = period_str p,
          me_income = round2 tie (series_get mi p),
          me_expenses = round2 tie (series_get me p),
          me_savings = round2 tie (series_get mi p - series_get me p),
          me_savings_rate =
            round2 tie (if 0 < series_get mi p
                    then (series_get mi p - series_get me p) / series_get mi p * 100
                    else 0)\<rparr>"
  by (simp add: month_entry_def Let_def pct_if_positive_eq)

lemma monthly_loop_eq:
  "monthly_loop tie mi me ps =
     Inr (map (\<lambda>p. \<lparr>me_month = period_str p,
          me_income = round2 tie (series_get mi p),
          me_expenses = round2 tie (series_get me p),
          me_savings = round2 tie (series_get mi p - series_get me p),
          me_savings_rate =
            round2 tie (if 0 < series_get mi p
                    then (series_get mi p - series_get me p) / series_get mi p * 100
                    else 0)\<rparr>) ps)"
  by (induction ps) (simp_all add: month_entry_eq)

subsection \<open>Earliest and latest date\<close>

lemma date_min_le: "dt_key (date_min d ds) \<le> dt_key d"
  unfolding date_min_def
  by (induction ds arbitrary: d) (auto intro: order_trans less_imp_le)

lemma date_min_lower: "x \<in> set ds \<Longrightarrow> dt_key (date_min d ds) \<le> dt_key x"
  unfolding date_min_def
proof (induction ds arbitrary: d)
  case Nil
  then show ?case by simp
next
  case (Cons a ds)
  show ?case
  proof (cases "x = a")
    case True
    have "dt_key (date_min (if dt_key a < dt_key d then a else d) ds)
            \<le> dt_key (if dt_key a < dt_key d then a else d)"
      by (rule date_min_le)
    then show ?thesis using True by (auto simp: date_min_def split: if_splits)
  next
    case False
    with Cons.prems have "x \<in> set ds" by simp
    then show ?thesis using Cons.IH by simp
  qed
qed

lemma date_min_mem: "date_min d ds \<in> set (d # ds)"
  unfolding date_min_def
proof (induction ds arbitrary: d)
  case Nil
  show ?case by simp
next
  case (Cons a ds)
  show ?case using Cons.IH [of "if dt_key a < dt_key d then a else d"] by (auto split: if_splits)
qed

lemma date_max_ge: "dt_key d \<le> dt_key (date_max d ds)"
  unfolding date_max_def
  by (induction ds arbitrary: d) (auto intro: order_trans less_imp_le)

lemma date_max_upper: "x \<in> set ds \<Longrightarrow> dt_key x \<le> dt_key (date_max d ds)"
  unfolding date_max_def
proof (induction ds arbitrary: d)
  case Nil
  then show ?case by simp
next
  case (Cons a ds)
  show ?case
  proof (cases "x = a")
    case True
    have "dt_key (if dt_key d < dt_key a then a else d)
            \<le> dt_key (date_max (if dt_key d < dt_key a then a else d) ds)"
      by (rule date_max_ge)
    then show ?thesis using True by (auto simp: date_max_def split: if_splits)
  next
    case False
    with Cons.prems have "x \<in> set ds" by simp
    then show ?thesis using Cons.IH by simp
  qed
qed

lemma date_max_mem: "date_max d ds \<in> set (d # ds)"
  unfolding date_max_def
proof (induction ds arbitrary: d)
  case Nil
  show ?case by simp
next
  case (Cons a ds)
  show ?case using Cons.IH [of "if dt_key d < dt_key a then a else d"] by (auto split: if_splits)
qed

lemma to_period_M_mono:
  assumes "valid_date a" "valid_date b" "dt_key a \<le> dt_key b"
  shows "to_period_M a \<le> to_period_M b"
proof -
  from assms(3) have "dt_year a < dt_year b \<or> (dt_year a = dt_year b \<and> dt_month a \<le> dt_month b)"
    by (auto simp: dt_key_def less_eq_prod_def less_prod_def)
  with assms(1,2) show ?thesis
    by (auto simp: to_period_M_def valid_date_def)
qed


subsection \<open>Month labels are distinct\<close>

lemma length_dec_digits: "length (dec_digits w n) = w"
  by (induction w arbitrary: n) simp_all

lemma digit_char_inj:
  assumes "a < 10" "b < 10" "digit_char a = digit_char b"
  shows "a = b"
proof -
  from assms(3) have "of_char (char_of (48 + a)) = (of_char (char_of (48 + b)) :: nat)"
    by (simp only: digit_char_def)
  then have "(48 + a) mod 256 = (48 + b) mod 256"
    by (simp only: of_char_of)
  with assms(1,2) show ?thesis by simp
qed

lemma dec_digits_inj:
  "n < 10 ^ w \<Longrightarrow> m < 10 ^ w \<Longrightarrow> dec_digits w n = dec_digits w m \<Longrightarrow> n = m"
proof (induction w arbitrary: n m)
  case 0
  then show ?case by simp
next
  case (Suc w)
  from Suc.prems(3) have hi: "dec_digits w (n div 10) = dec_digits w (m div 10)"
    and lo: "digit_char (n mod 10) = digit_char (m mod 10)"
    by (simp_all add: length_dec_digits)
  have "n div 10 < 10 ^ w" "m div 10 < 10 ^ w"
    using Suc.prems(1,2) by (simp_all add: less_mult_imp_div_less mult.commute)
  with hi have "n div 10 = m div 10" by (rule Suc.IH [rotated 2])
  moreover from lo have "n mod 10 = m mod 10"
    by (intro digit_char_inj) simp_all
  ultimately show ?case by (metis div_mult_mod_eq)
qed

lemma str_nat_single: "length (str_nat n) = 1 \<longleftrightarrow> n < 10"
proof (cases "n < 10")
  case True
  then show ?thesis by (simp add: str_nat.simps [of n])
next
  case False
  have "str_nat (n div 10) \<noteq> []"
    by (subst str_nat.simps) simp
  then have "0 < length (str_nat (n div 10))" by simp
  with False show ?thesis by (simp add: str_nat.simps [of n])
qed

lemma str_nat_inj: "str_nat n = str_nat m \<Longrightarrow> n = m"
proof (induction n arbitrary: m rule: str_nat.induct)
  case (1 n)
  from "1.prems" have len: "length (str_nat n) = 1 \<longleftrightarrow> length (str_nat m) = 1" by simp
  show ?case
  proof (cases "n < 10")
    case True
    with len have m: "m < 10"
      using str_nat_single [of n] str_nat_single [of m] by blast
    from "1.prems" True m have "digit_char n = digit_char m"
      by (simp add: str_nat.simps [of n] str_nat.simps [of m])
    with True m show ?thesis by (rule digit_char_inj)
  next
    case False
    with len have m: "\<not> m < 10"
      using str_nat_single [of n] str_nat_single [of m] by blast
    from "1.prems" False m
    have hi: "str_nat (n div 10) = str_nat (m div 10)"
      and lo: "digit_char (n mod 10) = digit_char (m mod 10)"
      by (simp_all add: str_nat.simps [of n] str_nat.simps [of m])
    from hi have "n div 10 = m div 10" by (rule "1.IH" [OF False])
    moreover from lo have "n mod 10 = m mod 10"
      by (intro digit_char_inj) simp_all
    ultimately show ?thesis by (metis div_mult_mod_eq)
  qed
qed

lemma period_str_inj:
  assumes "0 \<le> period_year p" "0 \<le> period_year q" "period_str p = period_str q"
  shows "p = q"
proof -
  have "length (''-'' @ dec_digits 2 (nat (period_month p)))
          = length (''-'' @ dec_digits 2 (nat (period_month q)))"
    by (simp add: length_dec_digits)
  with assms(3) have y: "str_nat (nat (period_year p)) = str_nat (nat (period_year q))"
    and m: "dec_digits 2 (nat (period_month p)) = dec_digits 2 (nat (period_month q))"
    unfolding period_str_def by (simp_all add: length_dec_digits)
  from y have "nat (period_year p) = nat (period_year q)" by (rule str_nat_inj)
  with assms(1,2) have "period_year p = period_year q" by simp
  then have d: "p div 12 = q div 12" by (simp add: period_year_def)
  have "nat (period_month p) = nat (period_month q)"
    by (intro dec_digits_inj [OF _ _ m]) (simp_all add: period_month_def nat_less_iff)
  then have "p mod 12 = q mod 12"
    by (simp add: period_month_def nat_eq_iff)
  with d show ?thesis by (metis div_mult_mod_eq)
qed

lemma period_year_to_period_M:
  "valid_date d \<Longrightarrow> period_year (to_period_M d) = int (dt_year d)"
  by (auto simp: period_year_def to_period_M_def valid_date_def)

lemma period_year_mono: "p \<le> q \<Longrightarrow> period_year p \<le> period_year q"
  by (simp add: period_year_def zdiv_mono1)

lemma period_str_inj_on:
  assumes "valid_date a"
  shows "inj_on period_str {to_period_M a..to_period_M b}"
proof (rule inj_onI)
  fix p q
  assume p: "p \<in> {to_period_M a..to_period_M b}" and q: "q \<in> {to_period_M a..to_period_M b}"
    and eq: "period_str p = period_str q"
  have bounds: "0 \<le> period_year x" if "x \<in> {to_period_M a..to_period_M b}" for x
  proof -
    from that have "period_year (to_period_M a) \<le> period_year x"
      by (simp add: period_year_mono)
    with assms show ?thesis
      by (simp add: period_year_to_period_M)
  qed
  from bounds [OF p] bounds [OF q] eq show "p = q"
    by (rule period_str_inj)
qed

subsection \<open>Every month from the first to the last\<close>

lemma series_get_groupby_sum:
  "series_get (groupby_sum kvs) k = sum_list (map snd (filter (\<lambda>kv. fst kv = k) kvs))"
  by (simp add: series_get_def groupby_sum_lookup filter_absent_key)

lemma monthly_income_get:
  "series_get (groupby_sum (map (\<lambda>t. (to_period_M (txn_date t), txn_amount t))
      (filter is_income df))) p = sum_income (in_month p df)"
  unfolding series_get_groupby_sum sum_income_def in_month_def
  by (induction df) simp_all

lemma monthly_expenses_get:
  "series_get (groupby_sum (map (\<lambda>t. (to_period_M (txn_date t), txn_amount t))
      (map abs_amount (filter is_expense df)))) p = sum_abs_expenses (in_month p df)"
  unfolding series_get_groupby_sum sum_abs_expenses_def in_month_def
  by (induction df) (simp_all add: abs_amount_def)

lemma analyze_monthly_eq:
  "analyze_monthly tie (r # rs) =
     Inr (map (\<lambda>p.
        \<lparr>me_month = period_str p,
         me_income = round2 tie (sum_income (in_month p (r # rs))),
         me_expenses = round2 tie (sum_abs_expenses (in_month p (r # rs))),
         me_savings =
           round2 tie (sum_income (in_month p (r # rs)) - sum_abs_expenses (in_month p (r # rs))),
         me_savings_rate =
           round2 tie (if 0 < sum_income (in_month p (r # rs))
                   then (sum_income (in_month p (r # rs))
                           - sum_abs_expenses (in_month p (r # rs)))
                         / sum_income (in_month p (r # rs)) * 100
                   else 0)\<rparr>)
       [to_period_M (date_min (txn_date r) (map txn_date rs))
          ..to_period_M (date_max (txn_date r) (map txn_date rs))])"
  unfolding analyze_monthly_def Let_def list.case period_range_def monthly_loop_eq
    monthly_income_get monthly_expenses_get ..

lemma first_period:
  assumes "\<forall>t \<in> set (r # rs). valid_date (txn_date t)"
  shows "to_period_M (date_min (txn_date r) (map txn_date rs))
           = Min (to_period_M ` txn_date ` set (r # rs))"
proof (rule Min_eqI [symmetric])
  show "finite (to_period_M ` txn_date ` set (r # rs))" by simp
next
  have "date_min (txn_date r) (map txn_date rs) \<in> set (txn_date r # map txn_date rs)"
    by (rule date_min_mem)
  then show "to_period_M (date_min (txn_date r) (map txn_date rs))
               \<in> to_period_M ` txn_date ` set (r # rs)"
    by auto
next
  fix y
  assume "y \<in> to_period_M ` txn_date ` set (r # rs)"
  then obtain t where t: "t \<in> set (r # rs)" and y: "y = to_period_M (txn_date t)" by auto
  have mem: "date_min (txn_date r) (map txn_date rs) \<in> set (txn_date r # map txn_date rs)"
    by (rule date_min_mem)
  have v1: "valid_date (date_min (txn_date r) (map txn_date rs))"
    using mem assms by auto
  have v2: "valid_date (txn_date t)" using t assms by blast
  have "dt_key (date_min (txn_date r) (map txn_date rs)) \<le> dt_key (txn_date t)"
    using t date_min_le [of "txn_date r" "map txn_date rs"]
      date_min_lower [of "txn_date t" "map txn_date rs" "txn_date r"] by auto
  with v1 v2 show "to_period_M (date_min (txn_date r) (map txn_date rs)) \<le> y"
    unfolding y by (rule to_period_M_mono)
qed

lemma last_period:
  assumes "\<forall>t \<in> set (r # rs). valid_date (txn_date t)"
  shows "to_period_M (date_max (txn_date r) (map txn_date rs))
           = Max (to_period_M ` txn_date ` set (r # rs))"
proof (rule Max_eqI [symmetric])
  show "finite (to_period_M ` txn_date ` set (r # rs))" by simp
next
  have "date_max (txn_date r) (map txn_date rs) \<in> set (txn_date r # map txn_date rs)"
    by (rule date_max_mem)
  then show "to_period_M (date_max (txn_date r) (map txn_date rs))
               \<in> to_period_M ` txn_date ` set (r # rs)"
    by auto
next
  fix y
  assume "y \<in> to_period_M ` txn_date ` set (r # rs)"
  then obtain t where t: "t \<in> set (r # rs)" and y: "y = to_period_M (txn_date t)" by auto
  have mem: "date_max (txn_date r) (map txn_date rs) \<in> set (txn_date r # map txn_date rs)"
    by (rule date_max_mem)
  have v1: "valid_date (date_max (txn_date r) (map txn_date rs))"
    using mem assms by auto
  have v2: "valid_date (txn_date t)" using t assms by blast
  have "dt_key (txn_date t) \<le> dt_key (date_max (txn_date r) (map txn_date rs))"
    using t date_max_ge [of "txn_date r" "map txn_date rs"]
      date_max_upper [of "txn_date t" "map txn_date rs" "txn_date r"] by auto
  with v2 v1 show "y \<le> to_period_M (date_max (txn_date r) (map txn_date rs))"
    unfolding y by (rule to_period_M_mono)
qed

lemma sums_of_no_rows: "sum_income [] = 0" "sum_abs_expenses [] = 0"
  by (simp_all add: sum_income_def sum_abs_expenses_def)

text \<open>
  C2. The monthly breakdown of the empty collection is the empty sequence. For a
  collection with at least one record it has exactly one entry for every calendar month
  from the month of the earliest date to the month of the latest date, both included, in
  ascending order: its length is that number of months, its labels are the labels of these
  months in order and are pairwise different, and the entry of a month without any
  transaction has income 0 and expenses 0.
\<close>

theorem analyze_monthly_covers_months:
  "analyze_monthly tie [] = Inr []
   \<and> (df \<noteq> [] \<and> (\<forall>t \<in> set df. valid_date (txn_date t)) \<longrightarrow>
        (let first = Min (to_period_M ` txn_date ` set df);
             last = Max (to_period_M ` txn_date ` set df)
         in \<exists>result.
              analyze_monthly tie df = Inr result
              \<and> first \<le> last
              \<and> length result = nat (last - first + 1)
              \<and> map me_month result = map period_str [first..last]
              \<and> distinct (map me_month result)
              \<and> (\<forall>i < length result.
                    in_month (first + int i) df = [] \<longrightarrow>
                      me_income (result ! i) = 0 \<and> me_expenses (result ! i) = 0)))"
proof (intro conjI impI)
  show "analyze_monthly tie [] = Inr []" by (simp add: analyze_monthly_def)
next
  assume asm: "df \<noteq> [] \<and> (\<forall>t \<in> set df. valid_date (txn_date t))"
  then obtain r rs where df: "df = r # rs" by (cases df) auto
  define dmin where "dmin = date_min (txn_date r) (map txn_date rs)"
  define dmax where "dmax = date_max (txn_date r) (map txn_date rs)"
  define first where "first = Min (to_period_M ` txn_date ` set df)"
  define last where "last = Max (to_period_M ` txn_date ` set df)"
  define entry where "entry = (\<lambda>p.
        \<lparr>me_month = period_str p,
         me_income = round2 tie (sum_income (in_month p df)),
         me_expenses = round2 tie (sum_abs_expenses (in_month p df)),
         me_savings = round2 tie (sum_income (in_month p df) - sum_abs_expenses (in_month p df)),
         me_savings_rate =
           round2 tie (if 0 < sum_income (in_month p df)
                   then (sum_income (in_month p df) - sum_abs_expenses (in_month p df))
                         / sum_income (in_month p df) * 100
                   else 0)\<rparr>)"
  from asm have valid: "\<forall>t \<in> set (r # rs). valid_date (txn_date t)" by (simp add: df)
  have first_eq: "to_period_M dmin = first"
    unfolding dmin_def first_def df by (rule first_period [OF valid])
  have last_eq: "to_period_M dmax = last"
    unfolding dmax_def last_def df by (rule last_period [OF valid])
  have mem: "dmin \<in> set (txn_date r # map txn_date rs)" "dmax \<in> set (txn_date r # map txn_date rs)"
    unfolding dmin_def dmax_def by (rule date_min_mem, rule date_max_mem)
  with valid have vmin: "valid_date dmin" and vmax: "valid_date dmax" by auto
  have "dt_key dmin \<le> dt_key (txn_date r)" "dt_key (txn_date r) \<le> dt_key dmax"
    unfolding dmin_def dmax_def by (rule date_min_le, rule date_max_ge)
  then have "dt_key dmin \<le> dt_key dmax" by (rule order_trans)
  with vmin vmax have "to_period_M dmin \<le> to_period_M dmax" by (rule to_period_M_mono)
  then have le: "first \<le> last" by (simp only: first_eq last_eq)
  have res: "analyze_monthly tie df = Inr (map entry [first..last])"
    unfolding df analyze_monthly_eq entry_def
    using first_eq last_eq by (simp only: dmin_def dmax_def df)
  have len: "length (map entry [first..last]) = nat (last - first + 1)" by simp
  have months: "map me_month (map entry [first..last]) = map period_str [first..last]"
    by (simp add: entry_def)
  have "inj_on period_str {first..last}"
    using period_str_inj_on [OF vmin, of dmax] by (simp only: first_eq last_eq)
  then have dist: "distinct (map me_month (map entry [first..last]))"
    unfolding months by (simp add: distinct_map)
  have zero: "me_income (map entry [first..last] ! i) = 0
              \<and> me_expenses (map entry [first..last] ! i) = 0"
    if "i < length (map entry [first..last])" "in_month (first + int i) df = []" for i
  proof -
    from that(1) have "first + int i \<le> last" by simp
    then have "map entry [first..last] ! i = entry (first + int i)"
      using that(1) by simp
    then show ?thesis
      by (simp add: entry_def that(2) sums_of_no_rows round2_zero)
  qed
  show "let first = Min (to_period_M ` txn_date ` set df);
             last = Max (to_period_M ` txn_date ` set df)
         in \<exists>result.
              analyze_monthly tie df = Inr result
              \<and> first \<le> last
              \<and> length result = nat (last - first + 1)
              \<and> map me_month result = map period_str [first..last]
              \<and> distinct (map me_month result)
              \<and> (\<forall>i < length result.
                    in_month (first + int i) df = [] \<longrightarrow>
                      me_income (result ! i) = 0 \<and> me_expenses (result ! i) = 0)"
    unfolding Let_def first_def [symmetric] last_def [symmetric]
    using res le len months dist zero by blast
qed

theorem analyze_monthly_covers_months_witness:
  "gap_db \<noteq> []
   \<and> list_all (\<lambda>t. valid_date (txn_date t)) gap_db
   \<and> (\<exists>result.
        analyze_monthly ties_to_even gap_db = Inr result
        \<and> length result = 4
        \<and> map me_month result = [''2024-01'', ''2024-02'', ''2024-03'', ''2024-04'']
        \<and> me_income (result ! 1) = 0 \<and> me_expenses (result ! 1) = 0
        \<and> me_income (result ! 2) = 0 \<and> me_expenses (result ! 2) = 0)"
proof -
  have ne: "gap_db \<noteq> []" by (simp add: sample_defs)
  have valid: "list_all (\<lambda>t. valid_date (txn_date t)) gap_db"
    by (simp add: sample_defs valid_date_def)
  then have valid': "\<forall>t \<in> set gap_db. valid_date (txn_date t)"
    by (simp add: list_all_iff)
  have first: "Min (to_period_M ` txn_date ` set gap_db) = 648"
    by code_simp
  have last: "Max (to_period_M ` txn_date ` set gap_db) = 651"
    by code_simp
  have labels: "map period_str [648..651] = [''2024-01'', ''2024-02'', ''2024-03'', ''2024-04'']"
    by code_simp
  have feb: "in_month (648 + int 1) gap_db = []" and mar: "in_month (648 + int 2) gap_db = []"
    by (simp_all add: in_month_def sample_defs to_period_M_def)
  from analyze_monthly_covers_months [of ties_to_even gap_db] ne valid'
  obtain result where r: "analyze_monthly ties_to_even gap_db = Inr result"
    "length result = nat (651 - 648 + 1)"
    "map me_month result = map period_str [648..651]"
    "\<forall>i < length result. in_month (648 + int i) gap_db = [] \<longrightarrow>
        me_income (result ! i) = 0 \<and> me_expenses (result ! i) = 0"
    unfolding Let_def first last by blast
  from r(2) have len: "length result = 4" by simp
  have "me_income (result ! 1) = 0 \<and> me_expenses (result ! 1) = 0"
    using r(4) [rule_format, of 1] feb len by simp
  moreover have "me_income (result ! 2) = 0 \<and> me_expenses (result ! 2) = 0"
    using r(4) [rule_format, of 2] mar len by simp
  ultimately show ?thesis
    using ne valid r(1,3) len labels by auto
qed

section \<open>The endpoints return what they compute\<close>

lemma get_analysis_empty:
  "get_transactions_as_dataframe db s e = [] \<Longrightarrow>
     get_analysis tie db s e = NotFound404 ''No transactions found''"
  by (simp add: get_analysis_def)

lemma get_analysis_ok:
  assumes "get_transactions_as_dataframe db s e = r # rs"
  shows "get_analysis tie db s e =
     Ok200 \<lparr>an_summary =
              \<lparr>sm_total_income = round2 tie (sum_income (r # rs)),
               sm_total_expenses = round2 tie (sum_abs_expenses (r # rs)),
               sm_total_savings = round2 tie (sum_income (r # rs) - sum_abs_expenses (r # rs)),
               sm_savings_rate =
                 round2 tie (if 0 < sum_income (r # rs)
                         then (sum_income (r # rs) - sum_abs_expenses (r # rs))
                                / sum_income (r # rs) * 100
                         else 0)\<rparr>,
            an_category_spending = analyze_spending (r # rs),
            an_date_range_start = strftime_ymd (date_min (txn_date r) (map txn_date rs)),
            an_date_range_end = strftime_ymd (date_max (txn_date r) (map txn_date rs))\<rparr>"
  unfolding get_analysis_def Let_def assms list.case pct_if_positive_eq sum.case ..

lemma get_monthly_analysis_empty:
  "get_transactions_as_dataframe db s e = [] \<Longrightarrow>
     get_monthly_analysis tie db s e = NotFound404 ''No transactions found''"
  by (simp add: get_monthly_analysis_def)

lemma period_sum_guard:
  "(if df \<noteq> [] then sum_income df else 0) = sum_income df"
  "(if df \<noteq> [] then sum_abs_expenses df else 0) = sum_abs_expenses df"
  by (simp_all add: sum_income_def sum_abs_expenses_def)

lemma compare_periods_ok:
  assumes "truthy p1_start" "truthy p1_end" "truthy p2_start" "truthy p2_end"
  shows "compare_periods tie db p1_start p1_end p2_start p2_end =
     Ok200 \<lparr>cmp_period1 =
              \<lparr>pt_date_range = param_text p1_start @ '' to '' @ param_text p1_end,
               pt_income = round2 tie (sum_income (get_transactions_as_dataframe db p1_start p1_end)),
               pt_expenses =
                 round2 tie (sum_abs_expenses (get_transactions_as_dataframe db p1_start p1_end)),
               pt_savings =
                 round2 tie (sum_income (get_transactions_as_dataframe db p1_start p1_end)
                   - sum_abs_expenses (get_transactions_as_dataframe db p1_start p1_end))\<rparr>,
            cmp_period2 =
              \<lparr>pt_date_range = param_text p2_start @ '' to '' @ param_text p2_end,
               pt_income = round2 tie (sum_income (get_transactions_as_dataframe db p2_start p2_end)),
               pt_expenses =
                 round2 tie (sum_abs_expenses (get_transactions_as_dataframe db p2_start p2_end)),
               pt_savings =
                 round2 tie (sum_income (get_transactions_as_dataframe db p2_start p2_end)
                   - sum_abs_expenses (get_transactions_as_dataframe db p2_start p2_end))\<rparr>,
            cmp_changes =
              \<lparr>ch_income_change =
                 round2 tie (sum_income (get_transactions_as_dataframe db p2_start p2_end)
                   - sum_income (get_transactions_as_dataframe db p1_start p1_end)),
               ch_income_change_pct =
                 round2 tie (if 0 < sum_income (get_transactions_as_dataframe db p1_start p1_end)
                         then (sum_income (get_transactions_as_dataframe db p2_start p2_end)
                                 - sum_income (get_transactions_as_dataframe db p1_start p1_end))
                               / sum_income (get_transactions_as_dataframe db p1_start p1_end) * 100
                         else 0),
               ch_expense_change =
                 round2 tie (sum_abs_expenses (get_transactions_as_dataframe db p2_start p2_end)
                   - sum_abs_expenses (get_transactions_as_dataframe db p1_start p1_end)),
               ch_expense_change_pct =
                 round2 tie (if 0 < sum_abs_expenses (get_transactions_as_dataframe db p1_start p1_end)
                         then (sum_abs_expenses (get_transactions_as_dataframe db p2_start p2_end)
                                 - sum_abs_expenses (get_transactions_as_dataframe db p1_start p1_end))
                               / sum_abs_expenses (get_transactions_as_dataframe db p1_start p1_end)
                               * 100
                         else 0)\<rparr>\<rparr>"
  unfolding compare_periods_def Let_def period_sum_guard pct_if_positive_eq sum.case
  using assms by (simp only: simp_thms if_False)

section \<open>Values with two decimal places\<close>










section \<open>No data\<close>

lemma get_monthly_analysis_ok:
  assumes "get_transactions_as_dataframe db s e = r # rs"
  shows "\<exists>m. analyze_monthly tie (r # rs) = Inr m \<and> get_monthly_analysis tie db s e = Ok200 m"
  by (simp add: get_monthly_analysis_def Let_def assms analyze_monthly_eq)

text \<open>
  C5. When the (possibly date-filtered) collection is empty, the analysis endpoint and the
  monthly endpoint both answer with the "no data" response (404, \<^verbatim>\<open>No transactions found\<close>):
  not a result, zero-filled or otherwise, and not the response of a failed computation
  (500). When the collection is not empty both answer with a result, so the "no data"
  response is given for the empty collection only.
\<close>

theorem empty_dataset_signalled:
  "(get_transactions_as_dataframe db start_date end_date = [] \<longrightarrow>
      get_analysis tie db start_date end_date = NotFound404 ''No transactions found''
      \<and> get_monthly_analysis tie db start_date end_date = NotFound404 ''No transactions found''
      \<and> (\<forall>a. get_analysis tie db start_date end_date \<noteq> Ok200 a)
      \<and> (\<forall>err. get_analysis tie db start_date end_date \<noteq> ServerError500 err)
      \<and> (\<forall>m. get_monthly_analysis tie db start_date end_date \<noteq> Ok200 m)
      \<and> (\<forall>err. get_monthly_analysis tie db start_date end_date \<noteq> ServerError500 err))
   \<and> (get_transactions_as_dataframe db start_date end_date \<noteq> [] \<longrightarrow>
      (\<exists>a. get_analysis tie db start_date end_date = Ok200 a)
      \<and> (\<exists>m. get_monthly_analysis tie db start_date end_date = Ok200 m))"
proof (intro conjI impI)
  assume ne: "get_transactions_as_dataframe db start_date end_date \<noteq> []"
  then obtain r rs where df: "get_transactions_as_dataframe db start_date end_date = r # rs"
    by (cases "get_transactions_as_dataframe db start_date end_date") auto
  show "\<exists>a. get_analysis tie db start_date end_date = Ok200 a"
    using get_analysis_ok [OF df] by blast
  show "\<exists>m. get_monthly_analysis tie db start_date end_date = Ok200 m"
    using get_monthly_analysis_ok [OF df] by blast
qed (simp_all add: get_analysis_empty get_monthly_analysis_empty)

theorem empty_dataset_signalled_witness:
  "get_transactions_as_dataframe [] None None = []
   \<and> get_analysis ties_to_even [] None None = NotFound404 ''No transactions found''
   \<and> get_monthly_analysis ties_to_even [] None None = NotFound404 ''No transactions found''
   \<and> get_transactions_as_dataframe sample_db feb_last jan_first = []
   \<and> get_analysis ties_to_even sample_db feb_last jan_first = NotFound404 ''No transactions found''
   \<and> get_monthly_analysis ties_to_even sample_db feb_last jan_first = NotFound404 ''No transactions found''
   \<and> get_transactions_as_dataframe sample_db jan_first jan_last \<noteq> []
   \<and> (\<exists>a. get_analysis ties_to_even sample_db jan_first jan_last = Ok200 a)"
proof -
  have e1: "get_transactions_as_dataframe [] None None = []"
    by (simp add: get_transactions_as_dataframe_def truthy_def)
  have e2: "get_transactions_as_dataframe sample_db feb_last jan_first = []"
    by (simp add: get_transactions_as_dataframe_def truthy_def param_defs sample_defs
        dt_le_def dt_key_def less_eq_prod_def)
  have e3: "get_transactions_as_dataframe sample_db jan_first jan_last \<noteq> []"
    by (simp add: get_transactions_as_dataframe_def truthy_def param_defs sample_defs
        dt_le_def dt_key_def less_eq_prod_def)
  show ?thesis
    using empty_dataset_signalled [of "[]" None None ties_to_even]
      empty_dataset_signalled [of sample_db feb_last jan_first ties_to_even]
      empty_dataset_signalled [of sample_db jan_first jan_last ties_to_even] e1 e2 e3
    by simp
qed

section \<open>Period comparison\<close>








section \<open>Rates and percentages against a zero baseline\<close>





section \<open>The sign of an expense does not matter\<close>

lemma flip_sign_simps:
  "txn_date (flip_sign r) = txn_date r"
  "txn_category (flip_sign r) = txn_category r"
  "txn_amount (flip_sign r) = - txn_amount r"
  "is_expense (flip_sign r) = is_expense r"
  "is_income (flip_sign r) = is_income r"
  "abs_amount (flip_sign r) = abs_amount r"
  by (simp_all add: flip_sign_def is_expense_def is_income_def abs_amount_def)

lemma not_both_types: "is_expense r \<Longrightarrow> \<not> is_income r"
  by (simp add: is_expense_def is_income_def)

lemma variant_dates:
  "list_all2 expense_sign_variant df df' \<Longrightarrow> map txn_date df' = map txn_date df"
  by (induction rule: list_all2_induct) (auto simp: expense_sign_variant_def flip_sign_simps)

lemma variant_income:
  "list_all2 expense_sign_variant df df' \<Longrightarrow> filter is_income df' = filter is_income df"
  by (induction rule: list_all2_induct)
    (auto simp: expense_sign_variant_def flip_sign_simps not_both_types)

lemma variant_expenses:
  "list_all2 expense_sign_variant df df' \<Longrightarrow>
     map abs_amount (filter is_expense df') = map abs_amount (filter is_expense df)"
  by (induction rule: list_all2_induct) (auto simp: expense_sign_variant_def flip_sign_simps)

lemma variant_filter_date:
  "list_all2 expense_sign_variant df df' \<Longrightarrow>
     list_all2 expense_sign_variant
       (filter (\<lambda>t. P (txn_date t)) df) (filter (\<lambda>t. P (txn_date t)) df')"
  by (induction rule: list_all2_induct) (auto simp: expense_sign_variant_def flip_sign_simps)

lemma variant_dataframe:
  assumes "list_all2 expense_sign_variant db db'"
  shows "list_all2 expense_sign_variant
           (get_transactions_as_dataframe db s e) (get_transactions_as_dataframe db' s e)"
  unfolding get_transactions_as_dataframe_def Let_def
  by (auto intro!: variant_filter_date assms)

lemma variant_replace:
  "is_expense r \<Longrightarrow> list_all2 expense_sign_variant (xs @ r # ys) (xs @ flip_sign r # ys)"
  by (auto simp: list_all2_append expense_sign_variant_def intro!: list_all2_refl list.rel_refl)

lemma sum_abs_expenses_alt:
  "sum_abs_expenses df = sum_list (map txn_amount (map abs_amount (filter is_expense df)))"
  by (simp add: sum_abs_expenses_def abs_amount_def comp_def)

lemma variant_sums:
  assumes "list_all2 expense_sign_variant df df'"
  shows "sum_income df' = sum_income df" "sum_abs_expenses df' = sum_abs_expenses df"
  using variant_income [OF assms] variant_expenses [OF assms]
  by (simp_all add: sum_income_def sum_abs_expenses_alt)

lemma variant_analyze_spending:
  assumes "list_all2 expense_sign_variant df df'"
  shows "analyze_spending df' = analyze_spending df"
proof -
  from assms have "length df = length df'" by (rule list_all2_lengthD)
  then have "df' = [] \<longleftrightarrow> df = []" by auto
  then show ?thesis
    unfolding analyze_spending_def Let_def variant_expenses [OF assms] by simp
qed

lemma variant_analyze_monthly:
  assumes "list_all2 expense_sign_variant df df'"
  shows "analyze_monthly tie df' = analyze_monthly tie df"
proof (cases df)
  case Nil
  with assms show ?thesis by simp
next
  case (Cons r rs)
  with assms obtain r' rs' where df': "df' = r' # rs'"
    by (cases df') auto
  from variant_dates [OF assms] have d: "txn_date r' = txn_date r" "map txn_date rs' = map txn_date rs"
    by (simp_all add: Cons df')
  show ?thesis
    using variant_income [OF assms] variant_expenses [OF assms]
    unfolding analyze_monthly_def Let_def Cons df' list.case d by simp
qed

lemma variant_get_analysis:
  assumes "list_all2 expense_sign_variant db db'"
  shows "get_analysis tie db' s e = get_analysis tie db s e"
proof -
  define df where "df = get_transactions_as_dataframe db s e"
  define df' where "df' = get_transactions_as_dataframe db' s e"
  have rel: "list_all2 expense_sign_variant df df'"
    unfolding df_def df'_def by (rule variant_dataframe [OF assms])
  show ?thesis
  proof (cases df)
    case Nil
    with rel have "df' = []" by simp
    with Nil show ?thesis by (simp add: get_analysis_def df_def [symmetric] df'_def [symmetric])
  next
    case (Cons r rs)
    with rel obtain r' rs' where c': "df' = r' # rs'" by (cases df') auto
    from variant_dates [OF rel] have d: "txn_date r' = txn_date r" "map txn_date rs' = map txn_date rs"
      by (simp_all add: Cons c')
    have "get_analysis tie db' s e = get_analysis tie db s e"
      unfolding get_analysis_ok [OF Cons [unfolded df_def]] get_analysis_ok [OF c' [unfolded df'_def]]
      using variant_sums [OF rel] variant_analyze_spending [OF rel] d
      by (simp add: Cons c')
    then show ?thesis .
  qed
qed

lemma variant_get_monthly_analysis:
  assumes "list_all2 expense_sign_variant db db'"
  shows "get_monthly_analysis tie db' s e = get_monthly_analysis tie db s e"
proof -
  have rel: "list_all2 expense_sign_variant
    (get_transactions_as_dataframe db s e) (get_transactions_as_dataframe db' s e)"
    by (rule variant_dataframe [OF assms])
  then have "length (get_transactions_as_dataframe db s e)
               = length (get_transactions_as_dataframe db' s e)"
    by (rule list_all2_lengthD)
  then have "get_transactions_as_dataframe db' s e = [] \<longleftrightarrow> get_transactions_as_dataframe db s e = []"
    by auto
  then show ?thesis
    unfolding get_monthly_analysis_def Let_def variant_analyze_monthly [OF rel] by simp
qed

lemma variant_compare_periods:
  assumes "list_all2 expense_sign_variant db db'"
  shows "compare_periods tie db' a b c d = compare_periods tie db a b c d"
  unfolding compare_periods_def Let_def period_sum_guard
    variant_sums [OF variant_dataframe [OF assms]] ..

lemma sum_income_flip:
  "is_income r \<Longrightarrow>
     sum_income (xs @ flip_sign r # ys) = sum_income (xs @ r # ys) - 2 * txn_amount r"
  by (simp add: sum_income_def flip_sign_simps)


text \<open>
  Category spending, the monthly breakdown, the two analysis endpoints and the period
  comparison give the same result when the amount x of an expense record is replaced by
  -x; the income total changes by twice the amount when the same is done to an income
  record.
\<close>

lemma expense_sign_invariance:
  "(is_expense r \<longrightarrow>
      analyze_spending (xs @ flip_sign r # ys) = analyze_spending (xs @ r # ys)
      \<and> analyze_monthly tie (xs @ flip_sign r # ys) = analyze_monthly tie (xs @ r # ys)
      \<and> get_analysis tie (xs @ flip_sign r # ys) start_date end_date
          = get_analysis tie (xs @ r # ys) start_date end_date
      \<and> get_monthly_analysis tie (xs @ flip_sign r # ys) start_date end_date
          = get_monthly_analysis tie (xs @ r # ys) start_date end_date
      \<and> compare_periods tie (xs @ flip_sign r # ys) p1_start p1_end p2_start p2_end
          = compare_periods tie (xs @ r # ys) p1_start p1_end p2_start p2_end)
   \<and> (is_income r \<longrightarrow>
      sum_income (xs @ flip_sign r # ys) = sum_income (xs @ r # ys) - 2 * txn_amount r)"
proof (intro conjI impI)
  assume "is_expense r"
  then have rel: "list_all2 expense_sign_variant (xs @ r # ys) (xs @ flip_sign r # ys)"
    by (rule variant_replace)
  show "analyze_spending (xs @ flip_sign r # ys) = analyze_spending (xs @ r # ys)"
    by (rule variant_analyze_spending [OF rel])
  show "analyze_monthly tie (xs @ flip_sign r # ys) = analyze_monthly tie (xs @ r # ys)"
    by (rule variant_analyze_monthly [OF rel])
  show "get_analysis tie (xs @ flip_sign r # ys) start_date end_date
          = get_analysis tie (xs @ r # ys) start_date end_date"
    by (rule variant_get_analysis [OF rel])
  show "get_monthly_analysis tie (xs @ flip_sign r # ys) start_date end_date
          = get_monthly_analysis tie (xs @ r # ys) start_date end_date"
    by (rule variant_get_monthly_analysis [OF rel])
  show "compare_periods tie (xs @ flip_sign r # ys) p1_start p1_end p2_start p2_end
          = compare_periods tie (xs @ r # ys) p1_start p1_end p2_start p2_end"
    by (rule variant_compare_periods [OF rel])
next
  assume "is_income r"
  then show "sum_income (xs @ flip_sign r # ys) = sum_income (xs @ r # ys) - 2 * txn_amount r"
    by (rule sum_income_flip)
qed

section \<open>Overall statistics\<close>

text \<open>
  When every expense is stored with a non-positive amount, the statistics are the sums of
  absolute expenses and the income less those.
\<close>

lemma or_zero_sql_sum: "or_zero (sql_sum xs) = sum_list xs"
  by (simp add: or_zero_def sql_sum_def)

lemma nonpositive_expense_sum:
  "(\<And>t. t \<in> set db \<Longrightarrow> is_expense t \<Longrightarrow> txn_amount t \<le> 0) \<Longrightarrow>
     sum_list (map txn_amount (filter is_expense db)) = - sum_abs_expenses db"
  by (induction db) (simp_all add: sum_abs_expenses_def)

lemma get_stats_when_expenses_nonpositive:
  assumes "\<And>t. t \<in> set db \<Longrightarrow> is_expense t \<Longrightarrow> txn_amount t \<le> 0"
  shows "get_stats tie db =
     Ok200 \<lparr>st_total_transactions = length db,
            st_total_income = round2 tie (sum_income db),
            st_total_expenses = round2 tie (sum_abs_expenses db),
            st_net_savings = round2 tie (sum_income db - sum_abs_expenses db),
            st_unique_categories = card (txn_category ` set db)\<rparr>"
proof -
  have cats: "length (remdups (map txn_category db)) = card (txn_category ` set db)"
    by (simp add: length_remdups_card_conv)
  have neg: "sum_list (map txn_amount (filter is_expense db)) = - sum_abs_expenses db"
    using assms by (intro nonpositive_expense_sum)
  have nonneg: "0 \<le> sum_abs_expenses db"
    unfolding sum_abs_expenses_def by (rule sum_list_nonneg) auto
  show ?thesis
    unfolding get_stats_def Let_def or_zero_sql_sum neg cats
    using nonneg by (simp add: sum_income_def)
qed

text \<open>
  C7. The overall statistics take the absolute value of the sum of the expense amounts,
  not the sum of their absolute values, and add the raw expense sum to the income. With an
  expense stored as a positive amount (20, next to an income of 1000) the net savings
  returned are 1020 and not 1000 - 20 = 980; with expenses of -30 and 20 the total
  expenses returned are 10 and not 50, and the net savings 990 and not 950.
\<close>

theorem get_stats_expense_sign_defect:
  "get_stats tie [food_feb, salary_jan] =
     Ok200 \<lparr>st_total_transactions = 2, st_total_income = 1000, st_total_expenses = 20,
            st_net_savings = 1020, st_unique_categories = 2\<rparr>
   \<and> sum_abs_expenses [food_feb, salary_jan] = 20
   \<and> sum_income [food_feb, salary_jan] - sum_abs_expenses [food_feb, salary_jan] = 980
   \<and> get_stats tie sample_db =
     Ok200 \<lparr>st_total_transactions = 3, st_total_income = 1000, st_total_expenses = 10,
            st_net_savings = 990, st_unique_categories = 2\<rparr>
   \<and> sum_abs_expenses sample_db = 50
   \<and> sum_income sample_db - sum_abs_expenses sample_db = 950"
  by (simp add: get_stats_def sql_sum_def or_zero_def sample_defs is_income_def is_expense_def
      sum_income_def sum_abs_expenses_def round2_numeral)

text \<open>
  C4. The overall statistics are an aggregation in which the sign of an expense matters:
  there the expense amounts are added as stored. With an expense of 20 next to an income
  of 1000 the net savings returned are 1020, and 980 once the amount is replaced by -20,
  while the analysis of the same two collections is one and the same.
\<close>

theorem get_stats_depends_on_expense_sign:
  "is_expense food_feb
   \<and> txn_amount food_feb = 20
   \<and> txn_amount (flip_sign food_feb) = - 20
   \<and> get_stats tie [food_feb, salary_jan] =
       Ok200 \<lparr>st_total_transactions = 2, st_total_income = 1000, st_total_expenses = 20,
              st_net_savings = 1020, st_unique_categories = 2\<rparr>
   \<and> get_stats tie [flip_sign food_feb, salary_jan] =
       Ok200 \<lparr>st_total_transactions = 2, st_total_income = 1000, st_total_expenses = 20,
              st_net_savings = 980, st_unique_categories = 2\<rparr>
   \<and> get_analysis tie [flip_sign food_feb, salary_jan] None None
       = get_analysis tie [food_feb, salary_jan] None None"
proof -
  have e: "is_expense food_feb"
    by (simp add: sample_defs is_expense_def)
  have a: "txn_amount food_feb = 20" "txn_amount (flip_sign food_feb) = - 20"
    by (simp_all add: sample_defs flip_sign_def)
  have stored: "get_stats tie [food_feb, salary_jan] =
       Ok200 \<lparr>st_total_transactions = 2, st_total_income = 1000, st_total_expenses = 20,
              st_net_savings = 1020, st_unique_categories = 2\<rparr>"
    by (simp add: get_stats_def sql_sum_def or_zero_def sample_defs is_income_def
        is_expense_def round2_numeral)
  have flipped: "get_stats tie [flip_sign food_feb, salary_jan] =
       Ok200 \<lparr>st_total_transactions = 2, st_total_income = 1000, st_total_expenses = 20,
              st_net_savings = 980, st_unique_categories = 2\<rparr>"
    by (simp add: get_stats_def sql_sum_def or_zero_def sample_defs is_income_def
        is_expense_def flip_sign_def round2_numeral)
  have "list_all2 expense_sign_variant ([] @ food_feb # [salary_jan])
          ([] @ flip_sign food_feb # [salary_jan])"
    using e by (rule variant_replace)
  then have same: "get_analysis tie [flip_sign food_feb, salary_jan] None None
       = get_analysis tie [food_feb, salary_jan] None None"
    using variant_get_analysis [of "[food_feb, salary_jan]" "[flip_sign food_feb, salary_jan]"]
    by simp
  from e a stored flipped same show ?thesis by simp
qed

section \<open>The type of a new transaction\<close>

text \<open>
  C8. Both construction sites compare the type text with \<^verbatim>\<open>income\<close> exactly and
  take every other text for an expense: \<^verbatim>\<open>INCOME\<close> and \<^verbatim>\<open>Income\<close> are stored
  as expenses, and a text outside the two types, such as \<^verbatim>\<open>transfer\<close>, is stored
  as an expense instead of being rejected. The type filter of the listing, by contrast,
  reads \<^verbatim>\<open>Income\<close> as income and raises on \<^verbatim>\<open>transfer\<close>.
\<close>

theorem type_text_not_validated:
  "transaction_type_of ''income'' = INCOME
   \<and> transaction_type_of ''INCOME'' = EXPENSE
   \<and> transaction_type_of ''Income'' = EXPENSE
   \<and> transaction_type_of ''transfer'' = EXPENSE
   \<and> snd (create_transaction [] now (salary_input ''INCOME''))
       = Created201 (new_transaction 1 now (salary_input ''INCOME''))
   \<and> txn_type (new_transaction 1 now (salary_input ''INCOME'')) = EXPENSE
   \<and> map txn_type (fst (upload_csv [] now [salary_input ''Income'', salary_input ''transfer'']))
       = [EXPENSE, EXPENSE]
   \<and> snd (upload_csv [] now [salary_input ''Income'', salary_input ''transfer''])
       = Created201 2
   \<and> type_filter ''Income'' = Inr INCOME
   \<and> type_filter ''transfer'' = Inl (KeyError ''TRANSFER'')"
proof -
  have sibling: "type_filter ''Income'' = Inr INCOME"
    "type_filter ''transfer'' = Inl (KeyError ''TRANSFER'')"
    by code_simp+
  have construct: "transaction_type_of ''income'' = INCOME"
    "transaction_type_of ''INCOME'' = EXPENSE"
    "transaction_type_of ''Income'' = EXPENSE"
    "transaction_type_of ''transfer'' = EXPENSE"
    by (simp_all add: transaction_type_of_def)
  have create: "snd (create_transaction [] now (salary_input ''INCOME''))
       = Created201 (new_transaction 1 now (salary_input ''INCOME''))"
    by (simp add: create_transaction_def next_id_def Let_def)
  have stored: "txn_type (new_transaction 1 now (salary_input ''INCOME'')) = EXPENSE"
    by (simp add: new_transaction_def salary_input_def construct)
  have upload: "map txn_type
       (fst (upload_csv [] now [salary_input ''Income'', salary_input ''transfer'']))
       = [EXPENSE, EXPENSE]"
    "snd (upload_csv [] now [salary_input ''Income'', salary_input ''transfer''])
       = Created201 2"
    by (simp_all add: upload_csv_def new_transaction_def salary_input_def construct)
  from sibling construct create stored upload show ?thesis by simp
qed

section \<open>Rounding of the outputs\<close>

text \<open>
  The values of the monthly breakdown, of the summary and of the comparison are rounded
  to two decimal places.
\<close>

lemma monthly_outputs_rounded:
  assumes "analyze_monthly tie df = Inr result" "e \<in> set result"
  shows "two_decimals (me_income e) \<and> two_decimals (me_expenses e)
         \<and> two_decimals (me_savings e) \<and> two_decimals (me_savings_rate e)"
proof (cases df)
  case Nil
  with assms show ?thesis by (simp add: analyze_monthly_def)
next
  case (Cons r rs)
  with assms show ?thesis
    unfolding Cons analyze_monthly_eq by (auto simp: two_decimals_round2)
qed

lemma summary_outputs_rounded:
  assumes "get_analysis tie db s e = Ok200 a"
  shows "two_decimals (sm_total_income (an_summary a))
         \<and> two_decimals (sm_total_expenses (an_summary a))
         \<and> two_decimals (sm_total_savings (an_summary a))
         \<and> two_decimals (sm_savings_rate (an_summary a))"
proof (cases "get_transactions_as_dataframe db s e")
  case Nil
  with assms show ?thesis by (simp add: get_analysis_empty)
next
  case (Cons r rs)
  from assms show ?thesis
    unfolding get_analysis_ok [OF Cons] by (auto simp: two_decimals_round2)
qed

lemma comparison_outputs_rounded:
  assumes "compare_periods tie db a b c d = Ok200 r"
  shows "two_decimals (pt_income (cmp_period1 r)) \<and> two_decimals (pt_expenses (cmp_period1 r))
         \<and> two_decimals (pt_savings (cmp_period1 r))
         \<and> two_decimals (pt_income (cmp_period2 r)) \<and> two_decimals (pt_expenses (cmp_period2 r))
         \<and> two_decimals (pt_savings (cmp_period2 r))
         \<and> two_decimals (ch_income_change (cmp_changes r))
         \<and> two_decimals (ch_income_change_pct (cmp_changes r))
         \<and> two_decimals (ch_expense_change (cmp_changes r))
         \<and> two_decimals (ch_expense_change_pct (cmp_changes r))"
proof (cases "truthy a \<and> truthy b \<and> truthy c \<and> truthy d")
  case True
  then have ok: "truthy a" "truthy b" "truthy c" "truthy d" by simp_all
  from assms show ?thesis
    unfolding compare_periods_ok [OF ok] by (auto simp: two_decimals_round2)
next
  case False
  with assms show ?thesis by (simp add: compare_periods_def)
qed

text \<open>
  C9. The values of the category-spending mapping are the sums themselves and are not
  rounded: for one expense of 10.0625 the mapping holds 10.0625, which has more than two
  decimal places, while the summary of the same analysis reports total expenses 10.06.
\<close>

theorem category_spending_not_rounded:
  "analyze_spending [fee_jan] ''Fees'' = Some (161 / 16)
   \<and> \<not> two_decimals (161 / 16)
   \<and> round2 tie (161 / 16) = 503 / 50
   \<and> (\<exists>a. get_analysis tie [fee_jan] None None = Ok200 a
         \<and> sm_total_expenses (an_summary a) = 503 / 50
         \<and> an_category_spending a ''Fees'' = Some (161 / 16))"
proof -
  have spend: "analyze_spending [fee_jan] ''Fees'' = Some (161 / 16)"
    by (simp add: analyze_spending_def groupby_sum_def add_to_group_def sample_defs
        is_expense_def abs_amount_def)
  have "\<lfloor>(161 / 16 :: rat) * 100\<rfloor> = 1006" by (simp add: floor_eq_iff)
  then have fl: "\<lfloor>(4025 / 4 :: rat)\<rfloor> = 1006" by simp
  then have nd: "\<not> two_decimals (161 / 16)" by (simp add: two_decimals_def)
  have rd: "round2 tie (161 / 16) = 503 / 50"
    by (rule round2_unique) (simp_all add: two_decimals_def)
  have frame: "get_transactions_as_dataframe [fee_jan] None None = [fee_jan]"
    by (simp add: get_transactions_as_dataframe_def truthy_def)
  have "sum_abs_expenses [fee_jan] = 161 / 16"
    by (simp add: sum_abs_expenses_def sample_defs is_expense_def)
  with rd have total: "round2 tie (sum_abs_expenses [fee_jan]) = 503 / 50"
    by (simp only:)
  obtain a where a: "get_analysis tie [fee_jan] None None = Ok200 a"
    "sm_total_expenses (an_summary a) = round2 tie (sum_abs_expenses [fee_jan])"
    "an_category_spending a = analyze_spending [fee_jan]"
    using get_analysis_ok [OF frame] by simp
  from a have "get_analysis tie [fee_jan] None None = Ok200 a
         \<and> sm_total_expenses (an_summary a) = 503 / 50
         \<and> an_category_spending a ''Fees'' = Some (161 / 16)"
    by (simp only: total spend)
  then have "\<exists>a. get_analysis tie [fee_jan] None None = Ok200 a
         \<and> sm_total_expenses (an_summary a) = 503 / 50
         \<and> an_category_spending a ''Fees'' = Some (161 / 16)" ..
  with spend nd rd show ?thesis by (simp only: simp_thms)
qed

end
